theory Spec2Isabelle
  imports Complex_Main "HOL-Library.Word"
begin

section \<open>The client access layer of \<^verbatim>\<open>mysql/sqlDatabase.h\<close>\<close>

text \<open>
  The header declares the exception types, \<^verbatim>\<open>BatchInsertStatement\<close>, \<^verbatim>\<open>_Query\<close> and
  \<^verbatim>\<open>_Connection\<close>, and defines \<^verbatim>\<open>QueryException\<close> and the whole class \<^verbatim>\<open>Row\<close> inline.
  The inline code is embedded from the source. The member functions of \<^verbatim>\<open>_Query\<close> and
  \<^verbatim>\<open>BatchInsertStatement\<close> are only declared there; their bodies are modelled from the
  specification, each under a comment that says so.
\<close>

subsection \<open>Failures\<close>

text \<open>
  The three exception kinds of the header, the contract violation and the end of the
  buffer of the specification, and the undefined behaviours of C++ that the inline code
  can reach: building a \<^verbatim>\<open>std::string\<close> from a null pointer or handing one to
  \<^verbatim>\<open>atof\<close>, indexing \<^verbatim>\<open>row\<close> outside the record, and returning a variable that
  \<^verbatim>\<open>sscanf\<close> never assigned.
\<close>

datatype error =
    FieldError
  | QueryError
  | ConnectionError
  | ContractViolation
  | EndOfRows
  | NullDereference
  | OutOfBounds
  | UninitializedRead

subsection \<open>The C library: \<^verbatim>\<open>isspace\<close>, \<^verbatim>\<open>strtol\<close>, \<^verbatim>\<open>strtoul\<close>\<close>

text \<open>
  The accessors call \<^verbatim>\<open>strtol(row[i], nullptr, 0)\<close> and its siblings. They are
  modelled after ISO C 7.22.1.4 in the C locale: leading white space is skipped, one
  sign is optional, base 0 reads a \<^verbatim>\<open>0x\<close> prefix followed by a hexadecimal digit as
  base 16, a leading \<^verbatim>\<open>0\<close> as base 8 and anything else as base 10, and the longest run
  of digits of that base is converted. No digits at all gives 0. The width of
  \<^verbatim>\<open>long\<close> is a parameter \<open>lw\<close> (64 on LP64 Linux, 32 elsewhere); a value outside
  the range saturates.
\<close>

definition isspace :: "char \<Rightarrow> bool" where
  "isspace c = (c = CHR '' '' \<or> c = CHR 0x09 \<or> c = CHR 0x0A \<or> c = CHR 0x0B
                \<or> c = CHR 0x0C \<or> c = CHR 0x0D)"

definition digit_value :: "char \<Rightarrow> nat option" where
  "digit_value c =
     (let n = (of_char c :: nat) in
      if 48 \<le> n \<and> n \<le> 57 then Some (n - 48)
      else if 97 \<le> n \<and> n \<le> 122 then Some (n - 87)
      else if 65 \<le> n \<and> n \<le> 90 then Some (n - 55)
      else None)"

definition in_base :: "nat \<Rightarrow> char \<Rightarrow> bool" where
  "in_base b c = (case digit_value c of Some d \<Rightarrow> d < b | None \<Rightarrow> False)"

fun digits_value :: "nat \<Rightarrow> nat \<Rightarrow> string \<Rightarrow> nat" where
  "digits_value b acc [] = acc"
| "digits_value b acc (c # cs) =
     (case digit_value c of
        Some d \<Rightarrow> if d < b then digits_value b (acc * b + d) cs else acc
      | None \<Rightarrow> acc)"

definition split_sign :: "string \<Rightarrow> bool \<times> string" where
  "split_sign s =
     (case s of
        [] \<Rightarrow> (False, s)
      | c # cs \<Rightarrow> if c = CHR ''-'' then (True, cs)
                  else if c = CHR ''+'' then (False, cs)
                  else (False, s))"

definition has_hex_prefix :: "string \<Rightarrow> bool" where
  "has_hex_prefix s =
     (case s of
        c0 # x # h # _ \<Rightarrow> c0 = CHR ''0'' \<and> (x = CHR ''x'' \<or> x = CHR ''X'') \<and> in_base 16 h
      | _ \<Rightarrow> False)"

definition base0_magnitude :: "string \<Rightarrow> nat option" where
  "base0_magnitude s =
     (if has_hex_prefix s then Some (digits_value 16 0 (drop 2 s))
      else case s of
             [] \<Rightarrow> None
           | c # cs \<Rightarrow> if c = CHR ''0'' then Some (digits_value 8 0 cs)
                       else if in_base 10 c then Some (digits_value 10 0 s)
                       else None)"

text \<open>The subject sequence: whether it is negated, and its magnitude; \<open>None\<close> when
  there is nothing to convert.\<close>

definition subject_sequence :: "string \<Rightarrow> (bool \<times> nat) option" where
  "subject_sequence s =
     (let (neg, rest) = split_sign (dropWhile isspace s) in
      case base0_magnitude rest of
        None \<Rightarrow> None
      | Some m \<Rightarrow> Some (neg, m))"

definition strtol :: "nat \<Rightarrow> string \<Rightarrow> int" where
  "strtol lw s =
     (case subject_sequence s of
        None \<Rightarrow> 0
      | Some (neg, m) \<Rightarrow>
          if neg then (if int m > 2 ^ (lw - 1) then - (2 ^ (lw - 1)) else - int m)
          else (if int m > 2 ^ (lw - 1) - 1 then 2 ^ (lw - 1) - 1 else int m))"

definition strtoul :: "nat \<Rightarrow> string \<Rightarrow> int" where
  "strtoul lw s =
     (case subject_sequence s of
        None \<Rightarrow> 0
      | Some (neg, m) \<Rightarrow>
          if int m > 2 ^ lw - 1 then 2 ^ lw - 1
          else if neg then (2 ^ lw - int m) mod 2 ^ lw
          else int m)"

text \<open>\<^verbatim>\<open>long long\<close> has 64 bits.\<close>

definition strtoll :: "string \<Rightarrow> int" where
  "strtoll s = strtol 64 s"

definition strtoull :: "string \<Rightarrow> int" where
  "strtoull s = strtoul 64 s"

subsection \<open>Rows\<close>

text \<open>
  A \<^verbatim>\<open>MYSQL_ROW\<close> is an array of C strings with a null pointer for SQL NULL: a list of
  optional texts. \<^verbatim>\<open>sqlFieldSet\<close> is \<^verbatim>\<open>std::map<std::string, int>\<close>. A \<^verbatim>\<open>Row\<close> holds the
  record and a shared pointer to its query; everything the inline code reads through
  that pointer is the query's field index (fixed once the query has run) and the raw
  access \<^verbatim>\<open>_Query::getFieldByIndex\<close>, so the pointer is represented by the field
  index, and the raw access is a parameter where it is called.
\<close>

type_synonym MYSQL_ROW = "string option list"

type_synonym sqlFieldSet = "string \<rightharpoonup> int"

record Row =
  row :: MYSQL_ROW
  query :: sqlFieldSet

text \<open>\<^verbatim>\<open>row[i]\<close>: reading outside the record is undefined in C++.\<close>

definition cell :: "Row \<Rightarrow> int \<Rightarrow> error + string option" where
  "cell r i =
     (if 0 \<le> i \<and> i < int (length (row r)) then Inr (row r ! nat i) else Inl OutOfBounds)"

text \<open>Modelled from the spec: \<^verbatim>\<open>_Query::getIndexByField\<close> is declared in the header and
  defined elsewhere. Section 4.1: it \<^emph>\<open>performs the FieldIndex lookup and fails with a
  field error if the name is absent\<close>.\<close>

definition lookupField :: "sqlFieldSet \<Rightarrow> string \<Rightarrow> error + int" where
  "lookupField fs f = (case fs f of None \<Rightarrow> Inl FieldError | Some i \<Rightarrow> Inr i)"

definition isFieldNull :: "Row \<Rightarrow> int \<Rightarrow> error + bool" where
  "isFieldNull r fieldIndex =
     (case cell r fieldIndex of Inl e \<Rightarrow> Inl e | Inr v \<Rightarrow> Inr (v = None))"

text \<open>\<^verbatim>\<open>Row::getIndexByField\<close> returns \<^verbatim>\<open>query->getIndexByField(fieldName)\<close>.\<close>

definition getIndexByField :: "Row \<Rightarrow> string \<Rightarrow> error + int" where
  "getIndexByField r fieldName = lookupField (query r) fieldName"

text \<open>\<^verbatim>\<open>operator[](int)\<close> returns \<^verbatim>\<open>row[fieldIndex]\<close> converted to \<^verbatim>\<open>std::string\<close>, with
  no test for a null pointer; \<^verbatim>\<open>operator[](const std::string&)\<close> tests it.\<close>

definition subscript :: "Row \<Rightarrow> int \<Rightarrow> error + string" where
  "subscript r fieldIndex =
     (case cell r fieldIndex of
        Inl e \<Rightarrow> Inl e
      | Inr None \<Rightarrow> Inl NullDereference
      | Inr (Some s) \<Rightarrow> Inr s)"

definition subscript_field :: "Row \<Rightarrow> string \<Rightarrow> error + string" where
  "subscript_field r fieldName =
     (case getIndexByField r fieldName of
        Inl e \<Rightarrow> Inl e
      | Inr index \<Rightarrow>
          (case cell r index of
             Inl e \<Rightarrow> Inl e
           | Inr None \<Rightarrow> Inr ''''
           | Inr (Some s) \<Rightarrow> Inr s))"

text \<open>\<^verbatim>\<open>Row::getFieldByIndex\<close>; \<open>queryGetFieldByIndex\<close> stands for
  \<^verbatim>\<open>query->getFieldByIndex\<close>, whose body is not in the header.\<close>

definition getFieldByIndex :: "(int \<Rightarrow> error + string) \<Rightarrow> Row \<Rightarrow> int \<Rightarrow> error + string" where
  "getFieldByIndex queryGetFieldByIndex r fieldIndex =
     (case cell r fieldIndex of
        Inl e \<Rightarrow> Inl e
      | Inr None \<Rightarrow> Inr ''NULL''
      | Inr (Some s) \<Rightarrow> queryGetFieldByIndex fieldIndex)"

subsection \<open>Typed accessors\<close>

text \<open>
  \<^verbatim>\<open>int\<close> and \<^verbatim>\<open>unsigned int\<close> are 32-bit words, the two \<^verbatim>\<open>short\<close> types 16-bit words
  and the two \<^verbatim>\<open>long long\<close> types 64-bit words; a conversion to a narrower type keeps
  the low bits. The overloads that take a field name carry the suffix \<open>_field\<close>.
\<close>

definition getInt :: "nat \<Rightarrow> Row \<Rightarrow> int \<Rightarrow> error + 32 word" where
  "getInt lw r i =
     (case cell r i of
        Inl e \<Rightarrow> Inl e
      | Inr None \<Rightarrow> Inr 0
      | Inr (Some s) \<Rightarrow> Inr (word_of_int (strtol lw s)))"

definition getNullableInt :: "nat \<Rightarrow> Row \<Rightarrow> int \<Rightarrow> error + 32 word option" where
  "getNullableInt lw r i =
     (case cell r i of
        Inl e \<Rightarrow> Inl e
      | Inr None \<Rightarrow> Inr None
      | Inr (Some s) \<Rightarrow> (case getInt lw r i of Inl e \<Rightarrow> Inl e | Inr v \<Rightarrow> Inr (Some v)))"

definition getUnsignedInt :: "nat \<Rightarrow> Row \<Rightarrow> int \<Rightarrow> error + 32 word" where
  "getUnsignedInt lw r i =
     (case cell r i of
        Inl e \<Rightarrow> Inl e
      | Inr None \<Rightarrow> Inr 0
      | Inr (Some s) \<Rightarrow> Inr (word_of_int (strtoul lw s)))"

definition getNullableUnsignedInt :: "nat \<Rightarrow> Row \<Rightarrow> int \<Rightarrow> error + 32 word option" where
  "getNullableUnsignedInt lw r i =
     (case cell r i of
        Inl e \<Rightarrow> Inl e
      | Inr None \<Rightarrow> Inr None
      | Inr (Some s) \<Rightarrow>
          (case getUnsignedInt lw r i of Inl e \<Rightarrow> Inl e | Inr v \<Rightarrow> Inr (Some v)))"

text \<open>The overload by name returns \<^verbatim>\<open>getNullableInt(getIndexByField(field))\<close>: the
  \<^verbatim>\<open>std::optional<int>\<close> is converted to \<^verbatim>\<open>std::optional<unsigned int>\<close>, which keeps
  the 32 bits of a value that is present.\<close>

definition getNullableUnsignedInt_field :: "nat \<Rightarrow> Row \<Rightarrow> string \<Rightarrow> error + 32 word option" where
  "getNullableUnsignedInt_field lw r field =
     (case getIndexByField r field of
        Inl e \<Rightarrow> Inl e
      | Inr i \<Rightarrow> getNullableInt lw r i)"

definition getShort :: "nat \<Rightarrow> Row \<Rightarrow> int \<Rightarrow> error + 16 word" where
  "getShort lw r i =
     (case cell r i of
        Inl e \<Rightarrow> Inl e
      | Inr None \<Rightarrow> Inr 0
      | Inr (Some s) \<Rightarrow> Inr (word_of_int (strtol lw s)))"

definition getUnsignedShort :: "nat \<Rightarrow> Row \<Rightarrow> int \<Rightarrow> error + 16 word" where
  "getUnsignedShort lw r i =
     (case cell r i of
        Inl e \<Rightarrow> Inl e
      | Inr None \<Rightarrow> Inr 0
      | Inr (Some s) \<Rightarrow> Inr (word_of_int (strtoul lw s)))"

text \<open>\<^verbatim>\<open>row[i][0]\<close> of an empty text is its terminating zero byte.\<close>

definition getChar :: "Row \<Rightarrow> int \<Rightarrow> error + char" where
  "getChar r i =
     (case cell r i of
        Inl e \<Rightarrow> Inl e
      | Inr None \<Rightarrow> Inr (CHR 0x00)
      | Inr (Some s) \<Rightarrow> Inr (case s of [] \<Rightarrow> CHR 0x00 | c # _ \<Rightarrow> c))"

text \<open>\<^verbatim>\<open>return row[i] == nullptr ? getChar(i) : std::optional<char>();\<close>\<close>

definition getNullableChar :: "Row \<Rightarrow> int \<Rightarrow> error + char option" where
  "getNullableChar r i =
     (case cell r i of
        Inl e \<Rightarrow> Inl e
      | Inr None \<Rightarrow> (case getChar r i of Inl e \<Rightarrow> Inl e | Inr c \<Rightarrow> Inr (Some c))
      | Inr (Some s) \<Rightarrow> Inr None)"

definition getLongLong :: "Row \<Rightarrow> int \<Rightarrow> error + 64 word" where
  "getLongLong r i =
     (case cell r i of
        Inl e \<Rightarrow> Inl e
      | Inr None \<Rightarrow> Inr 0
      | Inr (Some s) \<Rightarrow> Inr (word_of_int (strtoll s)))"

definition getUnsignedLongLong :: "Row \<Rightarrow> int \<Rightarrow> error + 64 word" where
  "getUnsignedLongLong r i =
     (case cell r i of
        Inl e \<Rightarrow> Inl e
      | Inr None \<Rightarrow> Inr 0
      | Inr (Some s) \<Rightarrow> Inr (word_of_int (strtoull s)))"

text \<open>\<^verbatim>\<open>getString(int)\<close> is \<^verbatim>\<open>return row[i];\<close>: the \<^verbatim>\<open>std::string\<close> is built from the
  pointer as it is.\<close>

definition getString :: "Row \<Rightarrow> int \<Rightarrow> error + string" where
  "getString r i =
     (case cell r i of
        Inl e \<Rightarrow> Inl e
      | Inr None \<Rightarrow> Inl NullDereference
      | Inr (Some s) \<Rightarrow> Inr s)"

definition getNullableString :: "Row \<Rightarrow> int \<Rightarrow> error + string option" where
  "getNullableString r i =
     (case cell r i of
        Inl e \<Rightarrow> Inl e
      | Inr None \<Rightarrow> Inr None
      | Inr (Some s) \<Rightarrow> Inr (Some s))"

text \<open>\<^verbatim>\<open>getFloat\<close> reads with \<^verbatim>\<open>sscanf(row[i], "%f", &f)\<close> and returns \<^verbatim>\<open>f\<close>; the
  parameter \<open>scan_f\<close> is that conversion, \<open>None\<close> when nothing is assigned and
  \<^verbatim>\<open>f\<close> is returned as it was declared. \<^verbatim>\<open>getDouble\<close> is \<^verbatim>\<open>return atof(row[i]);\<close>, with
  \<open>atof\<close> a parameter as well.\<close>

definition getFloat :: "(string \<Rightarrow> 'f option) \<Rightarrow> Row \<Rightarrow> int \<Rightarrow> error + ('f :: zero)" where
  "getFloat scan_f r i =
     (case cell r i of
        Inl e \<Rightarrow> Inl e
      | Inr None \<Rightarrow> Inr 0
      | Inr (Some s) \<Rightarrow> (case scan_f s of None \<Rightarrow> Inl UninitializedRead | Some f \<Rightarrow> Inr f))"

definition getDouble :: "(string \<Rightarrow> 'f) \<Rightarrow> Row \<Rightarrow> int \<Rightarrow> error + ('f :: zero)" where
  "getDouble atof r i =
     (case cell r i of
        Inl e \<Rightarrow> Inl e
      | Inr None \<Rightarrow> Inl NullDereference
      | Inr (Some s) \<Rightarrow> Inr (atof s))"

definition getNullableDouble :: "(string \<Rightarrow> 'f) \<Rightarrow> Row \<Rightarrow> int \<Rightarrow> error + ('f :: zero) option" where
  "getNullableDouble atof r i =
     (case cell r i of
        Inl e \<Rightarrow> Inl e
      | Inr None \<Rightarrow> Inr None
      | Inr (Some s) \<Rightarrow> (case getDouble atof r i of Inl e \<Rightarrow> Inl e | Inr v \<Rightarrow> Inr (Some v)))"

subsection \<open>Timestamps\<close>

text \<open>
  \<^verbatim>\<open>sscanf(row[i], "%d-%d-%d %d:%d:%d", ...)\<close> after ISO C 7.21.6.2: \<^verbatim>\<open>%d\<close> skips
  white space and converts an optionally signed run of decimal digits, white space in
  the format skips any white space, any other character must match the next input
  character. The scan stops at the first directive that fails. It returns the number
  of values assigned, or \<^verbatim>\<open>EOF\<close> (-1) when the input ends before the first conversion.
  The values are stored in \<^verbatim>\<open>int\<close> members, 32-bit words. ISO C leaves a run of digits
  outside the range of \<^verbatim>\<open>int\<close> undefined; the C library converts it as \<^verbatim>\<open>strtol\<close>
  does, saturating at the range of \<^verbatim>\<open>long\<close> (of width \<open>lw\<close>), and stores the low
  32 bits, and so does the model.
\<close>

datatype directive = Conv_d | Lit char | WS

datatype scan_item = Converted "32 word" string | MatchingFailure | InputFailure

definition long_of_digits :: "nat \<Rightarrow> bool \<Rightarrow> nat \<Rightarrow> int" where
  "long_of_digits lw neg m =
     (if neg then (if int m > 2 ^ (lw - 1) then - (2 ^ (lw - 1)) else - int m)
      else (if int m > 2 ^ (lw - 1) - 1 then 2 ^ (lw - 1) - 1 else int m))"

definition scan_d :: "nat \<Rightarrow> string \<Rightarrow> scan_item" where
  "scan_d lw s =
     (let s1 = dropWhile isspace s in
      if s1 = [] then InputFailure
      else let (neg, s2) = split_sign s1 in
        case s2 of
          [] \<Rightarrow> MatchingFailure
        | c # _ \<Rightarrow>
            if in_base 10 c
            then Converted (word_of_int (long_of_digits lw neg (digits_value 10 0 s2)))
                           (dropWhile (in_base 10) s2)
            else MatchingFailure)"

fun run_format ::
  "nat \<Rightarrow> directive list \<Rightarrow> string \<Rightarrow> 32 word list \<Rightarrow> 32 word list \<times> bool" where
  "run_format lw [] s acc = (acc, False)"
| "run_format lw (Conv_d # ds) s acc =
     (case scan_d lw s of
        Converted v rest \<Rightarrow> run_format lw ds rest (acc @ [v])
      | MatchingFailure \<Rightarrow> (acc, False)
      | InputFailure \<Rightarrow> (acc, True))"
| "run_format lw (Lit c # ds) s acc =
     (case s of
        [] \<Rightarrow> (acc, True)
      | x # xs \<Rightarrow> if x = c then run_format lw ds xs acc else (acc, False))"
| "run_format lw (WS # ds) s acc = run_format lw ds (dropWhile isspace s) acc"

definition sscanf :: "nat \<Rightarrow> directive list \<Rightarrow> string \<Rightarrow> int \<times> 32 word list" where
  "sscanf lw fmt s =
     (let (vals, input_failure) = run_format lw fmt s [] in
      (if input_failure \<and> vals = [] then - 1 else int (length vals), vals))"

definition timestamp_format :: "directive list" where
  "timestamp_format =
     [Conv_d, Lit (CHR ''-''), Conv_d, Lit (CHR ''-''), Conv_d, WS,
      Conv_d, Lit (CHR '':''), Conv_d, Lit (CHR '':''), Conv_d]"

record tm =
  tm_sec :: "32 word"
  tm_min :: "32 word"
  tm_hour :: "32 word"
  tm_mday :: "32 word"
  tm_mon :: "32 word"
  tm_year :: "32 word"
  tm_wday :: "32 word"
  tm_yday :: "32 word"
  tm_isdst :: "32 word"

text \<open>\<^verbatim>\<open>mktime\<close> reads the time zone of the process: it is the parameter \<open>mktime\<close> of
  \<open>getTimestamp\<close>. \<^verbatim>\<open>time_t\<close> is an integer. The two subtractions are on \<^verbatim>\<open>int\<close>
  members and wrap around in the model (in C they overflow, which is undefined, only
  from the least \<^verbatim>\<open>int\<close> values).\<close>

definition getTimestamp :: "nat \<Rightarrow> (tm \<Rightarrow> int) \<Rightarrow> Row \<Rightarrow> int \<Rightarrow> error + int" where
  "getTimestamp lw mktime r i =
     (case cell r i of
        Inl e \<Rightarrow> Inl e
      | Inr None \<Rightarrow> Inr 0
      | Inr (Some s) \<Rightarrow>
          (case sscanf lw timestamp_format s of
             (n, vals) \<Rightarrow>
               if n \<noteq> 6 then Inr 0
               else Inr (mktime \<lparr>tm_sec = vals ! 5, tm_min = vals ! 4, tm_hour = vals ! 3,
                                 tm_mday = vals ! 2, tm_mon = vals ! 1 - 1,
                                 tm_year = vals ! 0 - 1900, tm_wday = 0, tm_yday = 0,
                                 tm_isdst = - 1\<rparr>)))"

definition getNullableTimestamp ::
  "nat \<Rightarrow> (tm \<Rightarrow> int) \<Rightarrow> Row \<Rightarrow> int \<Rightarrow> error + int option" where
  "getNullableTimestamp lw mktime r i =
     (case cell r i of
        Inl e \<Rightarrow> Inl e
      | Inr None \<Rightarrow> Inr None
      | Inr (Some s) \<Rightarrow>
          (case getTimestamp lw mktime r i of Inl e \<Rightarrow> Inl e | Inr t \<Rightarrow> Inr (Some t)))"

text \<open>One \<^verbatim>\<open>mktime\<close>, for the closed examples below: that of the C library in a process
  whose time zone is UTC. It reads the members as signed, carries months outside
  0..11 into the year, counts the days of the proleptic Gregorian calendar since
  1970-01-01, and fails with -1 when the year of the result, counted from 1900, is
  not an \<^verbatim>\<open>int\<close>: when the result is before the first second of the year
  -2147481748 or after the last second of the year 2147485547.\<close>

definition days_from_civil :: "int \<Rightarrow> int \<Rightarrow> int \<Rightarrow> int" where
  "days_from_civil y m d =
     (let y' = (if m \<le> 2 then y - 1 else y);
          era = y' div 400;
          yoe = y' - era * 400;
          doy = (153 * (if m > 2 then m - 3 else m + 9) + 2) div 5 + d - 1;
          doe = yoe * 365 + yoe div 4 - yoe div 100 + doy
      in era * 146097 + doe - 719468)"

definition seconds_utc :: "int \<Rightarrow> int \<Rightarrow> int \<Rightarrow> int \<Rightarrow> int \<Rightarrow> int \<Rightarrow> int" where
  "seconds_utc year mon mday hour minute sec =
     days_from_civil (year + 1900 + mon div 12) (mon mod 12 + 1) mday * 86400
     + hour * 3600 + minute * 60 + sec"

definition in_time_range :: "int \<Rightarrow> int" where
  "in_time_range seconds =
     (if - 67768040609740800 \<le> seconds \<and> seconds < 67768036191676800 then seconds
      else - 1)"

definition mktime_utc :: "tm \<Rightarrow> int" where
  "mktime_utc t =
     in_time_range
       (seconds_utc (sint (tm_year t)) (sint (tm_mon t)) (sint (tm_mday t))
          (sint (tm_hour t)) (sint (tm_min t)) (sint (tm_sec t)))"

text \<open>
  The texts that \<^verbatim>\<open>%d-%d-%d %d:%d:%d\<close> reads six integers from, said without the
  scanner. An integer item at the head of a text is white space, if any, one sign, if
  any, and a run of decimal digits that the next character does not continue; a text
  begins with six integers when it begins with three items, \<^verbatim>\<open>-\<close> after the first and
  after the second, and three more, \<^verbatim>\<open>:\<close> after the fourth and after the fifth.
\<close>

definition integer_item :: "string \<Rightarrow> string \<Rightarrow> bool" where
  "integer_item s rest \<longleftrightarrow>
     (\<exists>w sg ds. s = w @ sg @ ds @ rest \<and> list_all isspace w
        \<and> (sg = [] \<or> sg = ''+'' \<or> sg = ''-'')
        \<and> ds \<noteq> [] \<and> list_all (in_base 10) ds
        \<and> (case rest of [] \<Rightarrow> True | c # _ \<Rightarrow> \<not> in_base 10 c))"

definition six_integers :: "string \<Rightarrow> bool" where
  "six_integers s \<longleftrightarrow>
     (\<exists>r1 r2 r3 r4 r5 r6.
        integer_item s (CHR ''-'' # r1) \<and> integer_item r1 (CHR ''-'' # r2)
        \<and> integer_item r2 r3
        \<and> integer_item r3 (CHR '':'' # r4) \<and> integer_item r4 (CHR '':'' # r5)
        \<and> integer_item r5 r6)"

text \<open>
  The fixed pattern of the specification, in its words: a text matches
  \<^verbatim>\<open>YYYY-MM-DD HH:MM:SS\<close> when it has a decimal digit for each letter and the
  pattern's own character everywhere else.
\<close>

definition pattern_char :: "char \<Rightarrow> char \<Rightarrow> bool" where
  "pattern_char p c = (if p \<in> set ''YMDHS'' then in_base 10 c else c = p)"

definition fixed_pattern :: "string \<Rightarrow> bool" where
  "fixed_pattern s = list_all2 pattern_char ''YYYY-MM-DD HH:MM:SS'' s"

subsection \<open>\<^verbatim>\<open>QueryException\<close>\<close>

text \<open>
  A server handle \<^verbatim>\<open>MYSQL*\<close> is what the constructor reads from it: \<^verbatim>\<open>mysql_errno\<close>
  (an \<^verbatim>\<open>unsigned int\<close>, stored in the \<^verbatim>\<open>int\<close> member \<^verbatim>\<open>err\<close>) and \<^verbatim>\<open>mysql_error\<close>.
  \<open>decimal\<close> is what \<^verbatim>\<open>buff << err\<close> writes.
\<close>

record MYSQL =
  mysql_errno :: "32 word"
  mysql_error :: string

record QueryException =
  message :: string
  errorMessage :: string
  err :: int

fun decimal_nat :: "nat \<Rightarrow> string" where
  "decimal_nat n =
     (if n < 10 then [''0123456789'' ! n]
      else decimal_nat (n div 10) @ [''0123456789'' ! (n mod 10)])"

definition decimal :: "int \<Rightarrow> string" where
  "decimal k = (if k < 0 then CHR ''-'' # decimal_nat (nat (- k)) else decimal_nat (nat k))"

definition newQueryException :: "string \<Rightarrow> MYSQL option \<Rightarrow> string option \<Rightarrow> QueryException" where
  "newQueryException msg mysql queryBuffer =
     (case mysql of
        Some h \<Rightarrow>
          (let e = sint (mysql_errno h); em = mysql_error h in
           \<lparr>message = msg @ [CHR 0x0A] @ em @ ''. '' @ ('' (#'' @ decimal e @ '')'') @ [CHR 0x0A]
                        @ (case queryBuffer of
                             Some q \<Rightarrow> ''Original query: '' @ q
                           | None \<Rightarrow> []),
            errorMessage = em,
            err = e\<rparr>)
      | None \<Rightarrow> \<lparr>message = msg, errorMessage = [], err = - 1\<rparr>)"

subsection \<open>Queries\<close>

text \<open>
  Modelled from the spec: the member functions of \<^verbatim>\<open>_Query\<close> are declared in the
  header and defined elsewhere. Sections 3 and 4.1: a query owns the field index, the
  buffer of all records, materialised when the statement is executed, and a cursor
  into the buffer. \<^emph>\<open>execute\<close> builds the field index from the column names the
  result handle returns (section 6: \<^verbatim>\<open>fieldCount()\<close>, \<^verbatim>\<open>fieldName(index)\<close>), each name
  with its zero-based position; \<^verbatim>\<open>hasNextRow\<close>, \<^verbatim>\<open>getRow\<close> and \<^verbatim>\<open>skipRow\<close> advance a
  forward cursor, \<^verbatim>\<open>peekRow\<close> returns the current record without advancing,
  \<^verbatim>\<open>resetRowQueue\<close> rewinds to the start. The spec does not say what they do when no
  record remains; the model reports \<open>EndOfRows\<close> there, and says nothing else
  about that case.
\<close>

record ResultHandle =
  fieldNames :: "string list"
  records :: "MYSQL_ROW list"

record Query =
  query_fields :: sqlFieldSet
  rows :: "MYSQL_ROW list"
  rowPosition :: nat
  request :: string

text \<open>Modelled from the spec: \<^verbatim>\<open>_Query::setupFields\<close> is not in the header. Section 3:
  the field index maps a column name to its zero-based position and is built once for
  an executed query. The spec does not say which position a name that is declared at
  two positions gets; the model keeps the first.\<close>

definition setupFields :: "string list \<Rightarrow> sqlFieldSet" where
  "setupFields names = map_of (zip names (map int [0..<length names]))"

text \<open>Modelled from the spec: executing a statement (\<^verbatim>\<open>_Connection::sendQuery\<close>, not in
  the header). Section 4.1: all records are materialised into the buffer and the field
  index is built from the column names; the cursor starts at the first record.\<close>

definition execute :: "string \<Rightarrow> ResultHandle \<Rightarrow> Query" where
  "execute text res =
     \<lparr>query_fields = setupFields (fieldNames res), rows = records res, rowPosition = 0,
      request = text\<rparr>"

text \<open>Modelled from the spec: \<^verbatim>\<open>_Query::numRows\<close>, a read of the buffered records.\<close>

definition numRows :: "Query \<Rightarrow> nat" where
  "numRows q = length (rows q)"

text \<open>Modelled from the spec: \<^verbatim>\<open>_Query::getIndexByField\<close>, the lookup in the field index
  of the query (section 4.1).\<close>

definition Query_getIndexByField :: "Query \<Rightarrow> string \<Rightarrow> error + int" where
  "Query_getIndexByField q f = lookupField (query_fields q) f"

text \<open>The index a query returns for a name, for stating that the lookup is a
  bijection.\<close>

definition indexOf :: "Query \<Rightarrow> string \<Rightarrow> int" where
  "indexOf q f = projr (Query_getIndexByField q f)"

text \<open>Modelled from the spec: \<^verbatim>\<open>_Query::hasNextRow\<close>; the cursor is a position in the
  buffer, and a record remains while it is before the end.\<close>

definition hasNextRow :: "Query \<Rightarrow> bool" where
  "hasNextRow q = (rowPosition q < length (rows q))"

text \<open>Modelled from the spec: the \<^verbatim>\<open>Row\<close> that a query hands out, a view of the record
  at the cursor with a reference back to the query (section 3).\<close>

definition currentRow :: "Query \<Rightarrow> Row" where
  "currentRow q = \<lparr>row = rows q ! rowPosition q, query = query_fields q\<rparr>"

text \<open>Modelled from the spec: \<^verbatim>\<open>_Query::peekRow\<close>, \<^verbatim>\<open>getRow\<close>, \<^verbatim>\<open>skipRow\<close> and
  \<^verbatim>\<open>resetRowQueue\<close> (section 4.1). Each returns the query as it leaves it.\<close>

definition peekRow :: "Query \<Rightarrow> error + Row \<times> Query" where
  "peekRow q = (if hasNextRow q then Inr (currentRow q, q) else Inl EndOfRows)"

definition getRow :: "Query \<Rightarrow> error + Row \<times> Query" where
  "getRow q =
     (if hasNextRow q then Inr (currentRow q, q\<lparr>rowPosition := rowPosition q + 1\<rparr>)
      else Inl EndOfRows)"

definition skipRow :: "Query \<Rightarrow> error + Query" where
  "skipRow q =
     (if hasNextRow q then Inr (q\<lparr>rowPosition := rowPosition q + 1\<rparr>) else Inl EndOfRows)"

definition resetRowQueue :: "Query \<Rightarrow> Query" where
  "resetRowQueue q = q\<lparr>rowPosition := 0\<rparr>"

subsection \<open>Batch inserts\<close>

text \<open>
  Modelled from the spec: the member functions of \<^verbatim>\<open>BatchInsertStatement\<close> and
  \<^verbatim>\<open>_Connection::sendRawQuery\<close> are declared in the header and defined elsewhere.
  The record has the data members of the class. Section 4.3 gives the operations:
  \<^item> \<^verbatim>\<open>addField\<close> is legal only before \<^verbatim>\<open>start\<close> and appends to the declared columns;
  \<^item> \<^verbatim>\<open>start\<close> is guarded against a second call, freezes the columns and emits the
    header \<^verbatim>\<open>INSERT [IGNORE] INTO table (c1,c2,...) VALUES\<close> (section 6) once;
  \<^item> \<^verbatim>\<open>beginEntry\<close> emits the separator for its position, a comma before every tuple
    but the first of the tuple buffer, and the opening parenthesis;
  \<^item> a value is appended to the current tuple, after a comma unless it is the first of
    its entry;
  \<^item> \<^verbatim>\<open>endEntry\<close> closes the tuple and increments the completed-entry count, and
    flushes exactly when the count reaches the threshold; an entry whose number of
    values is not the number of declared columns fails fast;
  \<^item> \<^verbatim>\<open>flush\<close> transmits header and tuples and clears only the tuple buffer: the
    header, the counters and the phase stay as they are; a statement the connection
    rejects surfaces a query error;
  \<^item> \<^verbatim>\<open>finish\<close> flushes a remaining partial batch, that is a tuple buffer that is
    not empty, and closes the statement; any use after that is a contract violation.
  The state machine needs two facts the class has no member for: the number of values
  written in the current entry, and whether the statement is closed.
\<close>

record Connection =
  transmitted :: "string list"
  accepts :: "string \<Rightarrow> bool"


record BatchInsertStatement =
  numberOfInserts :: nat
  insertsPerFlush :: nat
  numberOfFieldsLoaded :: nat
  tableName :: string
  header :: string
  sql :: string
  firstFieldThisEntry :: bool
  firstField :: bool
  hasStarted :: bool
  connection :: Connection
  valuesThisEntry :: nat
  closed :: bool





text \<open>Modelled from the spec: \<^verbatim>\<open>BatchInsertStatement::addFieldValue\<close>, the generic
  value, and \<^verbatim>\<open>putInt\<close>, which writes the decimal digits.\<close>

definition addFieldValue :: "BatchInsertStatement \<Rightarrow> string \<Rightarrow> error + BatchInsertStatement" where
  "addFieldValue s v =
     (if \<not> hasStarted s \<or> closed s then Inl ContractViolation
      else Inr (s\<lparr>sql := sql s @ (if firstFieldThisEntry s then [] else '','') @ v,
                 firstFieldThisEntry := False,
                 valuesThisEntry := valuesThisEntry s + 1\<rparr>))"

definition putInt :: "BatchInsertStatement \<Rightarrow> int \<Rightarrow> error + BatchInsertStatement" where
  "putInt s v = addFieldValue s (decimal v)"












section \<open>Properties\<close>

subsection \<open>Reading a record\<close>

lemma cell_valid:
  "0 \<le> i \<Longrightarrow> i < int (length (row r)) \<Longrightarrow> cell r i = Inr (row r ! nat i)"
  by (simp add: cell_def)

lemma cell_null:
  "0 \<le> i \<Longrightarrow> i < int (length (row r)) \<Longrightarrow> row r ! nat i = None \<Longrightarrow> cell r i = Inr None"
  by (simp add: cell_def)

lemmas parse_defs =
  strtol_def strtoul_def strtoll_def strtoull_def subject_sequence_def split_sign_def
  base0_magnitude_def has_hex_prefix_def in_base_def digit_value_def isspace_def

text \<open>
  Claim C1. On a valid column whose value is SQL NULL, \<^verbatim>\<open>getInt\<close>, \<^verbatim>\<open>getUnsignedInt\<close>,
  \<^verbatim>\<open>getShort\<close>, \<^verbatim>\<open>getUnsignedShort\<close>, \<^verbatim>\<open>getLongLong\<close>, \<^verbatim>\<open>getUnsignedLongLong\<close>,
  \<^verbatim>\<open>getFloat\<close> and \<^verbatim>\<open>getTimestamp\<close> return zero and \<^verbatim>\<open>getChar\<close> returns the zero
  character. \<^verbatim>\<open>getString\<close> and \<^verbatim>\<open>getDouble\<close> have no test for the null pointer: they
  build a \<^verbatim>\<open>std::string\<close> from it and hand it to \<^verbatim>\<open>atof\<close>, which is undefined, and
  return no default.
\<close>

theorem null_column_defaults:
  assumes "0 \<le> i" and "i < int (length (row r))" and "row r ! nat i = None"
  shows "getInt lw r i = Inr 0
       \<and> getUnsignedInt lw r i = Inr 0
       \<and> getShort lw r i = Inr 0
       \<and> getUnsignedShort lw r i = Inr 0
       \<and> getChar r i = Inr (CHR 0x00)
       \<and> getLongLong r i = Inr 0
       \<and> getUnsignedLongLong r i = Inr 0
       \<and> getFloat scan_f r i = Inr 0
       \<and> getTimestamp lw mktime r i = Inr 0
       \<and> getString r i = Inl NullDereference
       \<and> getDouble atof r i = Inl NullDereference"
proof -
  have c: "cell r i = Inr None"
    using assms by (rule cell_null)
  show ?thesis
    by (simp add: c getInt_def getUnsignedInt_def getShort_def getUnsignedShort_def
        getChar_def getLongLong_def getUnsignedLongLong_def getFloat_def getTimestamp_def
        getString_def getDouble_def)
qed

theorem null_column_defaults_witness:
  "getInt 64 \<lparr>row = [None], query = Map.empty\<rparr> 0 = Inr 0
   \<and> getChar \<lparr>row = [None], query = Map.empty\<rparr> 0 = Inr (CHR 0x00)
   \<and> getString \<lparr>row = [None], query = Map.empty\<rparr> 0 = Inl NullDereference
   \<and> getDouble (\<lambda>s. 0 :: real) \<lparr>row = [None], query = Map.empty\<rparr> 0 = Inl NullDereference"
  using null_column_defaults [of 0 "\<lparr>row = [None], query = Map.empty\<rparr>" 64 "\<lambda>s. None :: real option"
      mktime_utc "\<lambda>s. 0 :: real"]
  by simp

text \<open>
  Claim C2. \<^verbatim>\<open>getNullableChar\<close> has the two branches the other way round from every
  other nullable accessor: on a valid column it returns a present zero character
  when the value is SQL NULL, and an absent value for every text.
\<close>

theorem getNullableChar_inverted:
  assumes "0 \<le> i" and "i < int (length (row r))"
  shows "(row r ! nat i = None \<longrightarrow> getNullableChar r i = Inr (Some (CHR 0x00)))
       \<and> (\<forall>s. row r ! nat i = Some s \<longrightarrow> getNullableChar r i = Inr None \<and>
                (s \<noteq> [] \<longrightarrow> getChar r i = Inr (hd s)))"
proof -
  have c: "cell r i = Inr (row r ! nat i)"
    using assms by (rule cell_valid)
  show ?thesis
    by (auto simp: c getNullableChar_def getChar_def split: list.splits)
qed

theorem getNullableChar_inverted_witness:
  "getNullableChar \<lparr>row = [Some ''A'', None], query = Map.empty\<rparr> 0 = Inr None
   \<and> getChar \<lparr>row = [Some ''A'', None], query = Map.empty\<rparr> 0 = Inr (CHR ''A'')
   \<and> getNullableChar \<lparr>row = [Some ''A'', None], query = Map.empty\<rparr> 1 = Inr (Some (CHR 0x00))"
  using getNullableChar_inverted [of 0 "\<lparr>row = [Some ''A'', None], query = Map.empty\<rparr>"]
    getNullableChar_inverted [of 1 "\<lparr>row = [Some ''A'', None], query = Map.empty\<rparr>"]
  by simp

text \<open>
  Claim C3. The overload of \<^verbatim>\<open>getNullableUnsignedInt\<close> that takes a field name goes
  through \<^verbatim>\<open>getNullableInt\<close>, hence \<^verbatim>\<open>strtol\<close>, where the overload that takes an index
  uses \<^verbatim>\<open>strtoul\<close>. The two saturate at different bounds, so they disagree on a text
  beyond the range of \<^verbatim>\<open>long\<close>: with a 64-bit \<^verbatim>\<open>long\<close> on \<^verbatim>\<open>9223372036854775808\<close>
  (4294967295 by name, 0 by index), with a 32-bit \<^verbatim>\<open>long\<close> on \<^verbatim>\<open>3000000000\<close>
  (2147483647 by name, 3000000000 by index).
\<close>

theorem getNullableUnsignedInt_forms_differ:
  "getIndexByField \<lparr>row = [Some ''9223372036854775808''], query = [''n'' \<mapsto> 0]\<rparr> ''n'' = Inr 0
   \<and> getNullableUnsignedInt_field 64
        \<lparr>row = [Some ''9223372036854775808''], query = [''n'' \<mapsto> 0]\<rparr> ''n''
       = Inr (Some 4294967295)
   \<and> getNullableUnsignedInt 64
        \<lparr>row = [Some ''9223372036854775808''], query = [''n'' \<mapsto> 0]\<rparr> 0
       = Inr (Some 0)
   \<and> getNullableUnsignedInt_field 32
        \<lparr>row = [Some ''3000000000''], query = [''n'' \<mapsto> 0]\<rparr> ''n''
       = Inr (Some 2147483647)
   \<and> getNullableUnsignedInt 32
        \<lparr>row = [Some ''3000000000''], query = [''n'' \<mapsto> 0]\<rparr> 0
       = Inr (Some 3000000000)"
  by (simp add: getNullableUnsignedInt_field_def getNullableUnsignedInt_def getNullableInt_def
      getInt_def getUnsignedInt_def getIndexByField_def lookupField_def cell_def parse_defs)

text \<open>
  Claim C8. On a valid column whose value is SQL NULL, \<^verbatim>\<open>Row::getFieldByIndex\<close>
  returns the text \<^verbatim>\<open>NULL\<close> and does not ask the query for the field, whatever the
  query would answer.
\<close>

theorem getFieldByIndex_null:
  assumes "0 \<le> i" and "i < int (length (row r))" and "row r ! nat i = None"
  shows "getFieldByIndex queryGetFieldByIndex r i = Inr ''NULL''"
proof -
  have "cell r i = Inr None"
    using assms by (rule cell_null)
  then show ?thesis
    by (simp add: getFieldByIndex_def)
qed

theorem getFieldByIndex_null_witness:
  "getFieldByIndex (\<lambda>i. Inr ''raw'') \<lparr>row = [Some ''x'', None], query = Map.empty\<rparr> 1 = Inr ''NULL''"
  using getFieldByIndex_null [of 1 "\<lparr>row = [Some ''x'', None], query = Map.empty\<rparr>" "\<lambda>i. Inr ''raw''"]
  by simp

text \<open>
  Claim C9. For a field name that the field index maps to a valid column: when the
  value is SQL NULL, the subscript by name returns the empty string and the subscript
  by index, which has no test, builds a \<^verbatim>\<open>std::string\<close> from the null pointer and
  returns nothing; on every text the two return the same string.
\<close>

theorem subscript_forms:
  assumes "getIndexByField r f = Inr i" and "0 \<le> i" and "i < int (length (row r))"
  shows "(row r ! nat i = None \<longrightarrow>
            subscript_field r f = Inr [] \<and> subscript r i = Inl NullDereference)
       \<and> (\<forall>s. row r ! nat i = Some s \<longrightarrow>
            subscript_field r f = Inr s \<and> subscript r i = Inr s)"
proof -
  have c: "cell r i = Inr (row r ! nat i)"
    using assms(2,3) by (rule cell_valid)
  show ?thesis
    by (simp add: c assms(1) subscript_field_def subscript_def)
qed

theorem subscript_forms_witness:
  "subscript_field \<lparr>row = [None, Some ''bob''], query = [''id'' \<mapsto> 0, ''name'' \<mapsto> 1]\<rparr> ''id'' = Inr []
   \<and> subscript \<lparr>row = [None, Some ''bob''], query = [''id'' \<mapsto> 0, ''name'' \<mapsto> 1]\<rparr> 0
       = Inl NullDereference
   \<and> subscript_field \<lparr>row = [None, Some ''bob''], query = [''id'' \<mapsto> 0, ''name'' \<mapsto> 1]\<rparr> ''name''
       = Inr ''bob''
   \<and> subscript \<lparr>row = [None, Some ''bob''], query = [''id'' \<mapsto> 0, ''name'' \<mapsto> 1]\<rparr> 1 = Inr ''bob''"
  using subscript_forms [of "\<lparr>row = [None, Some ''bob''], query = [''id'' \<mapsto> 0, ''name'' \<mapsto> 1]\<rparr>" "''id''" 0]
    subscript_forms [of "\<lparr>row = [None, Some ''bob''], query = [''id'' \<mapsto> 0, ''name'' \<mapsto> 1]\<rparr>" "''name''" 1]
  by (simp add: getIndexByField_def lookupField_def)

subsection \<open>Timestamps\<close>

lemmas scan_defs = sscanf_def timestamp_format_def scan_d_def long_of_digits_def

lemma getTimestamp_example:
  "getTimestamp 64 mktime_utc \<lparr>row = [Some ''2007-01-26 10:00:00''], query = Map.empty\<rparr> 0
     = Inr 1169805600"
  by (simp add: getTimestamp_def cell_def scan_defs parse_defs mktime_utc_def
      seconds_utc_def in_time_range_def days_from_civil_def)

lemma mktime_utc_range:
  "days_from_civil (- 2147483648 + 1900) 1 1 * 86400 = - 67768040609740800"
  "days_from_civil (2147483647 + 1900 + 1) 1 1 * 86400 = 67768036191676800"
  by (simp_all add: days_from_civil_def)

lemma digit_not_space: "in_base 10 c \<Longrightarrow> \<not> isspace c"
  by (auto simp: isspace_def in_base_def digit_value_def)

lemma digit_not_sign: "in_base 10 c \<Longrightarrow> c \<noteq> CHR ''-'' \<and> c \<noteq> CHR ''+''"
  by (auto simp: in_base_def digit_value_def)

lemma split_sign_parts:
  assumes "split_sign s = (neg, s2)"
  shows "\<exists>sg. s = sg @ s2 \<and> (sg = [] \<or> sg = ''+'' \<or> sg = ''-'')"
  using assms by (auto simp: split_sign_def split: list.splits if_splits)

text \<open>What \<^verbatim>\<open>%d\<close> converts is an integer item, and every integer item is converted.\<close>

lemma scan_d_item:
  assumes "scan_d lw s = Converted v rest"
  shows "integer_item s rest"
proof -
  let ?s1 = "dropWhile isspace s"
  obtain neg s2 where sp: "split_sign ?s1 = (neg, s2)"
    by (cases "split_sign ?s1")
  from assms sp obtain c cs where s2: "s2 = c # cs" and c: "in_base 10 c"
    and rest: "rest = dropWhile (in_base 10) s2"
    by (auto simp: scan_d_def Let_def split: if_splits list.splits)
  from split_sign_parts [OF sp] obtain sg where
    sg: "?s1 = sg @ s2" "sg = [] \<or> sg = ''+'' \<or> sg = ''-''"
    by blast
  let ?w = "takeWhile isspace s" and ?ds = "takeWhile (in_base 10) s2"
  have "s = ?w @ ?s1"
    by simp
  also have "?s1 = sg @ ?ds @ rest"
    using sg(1) rest by simp
  finally have decomp: "s = ?w @ sg @ ?ds @ rest" .
  have w: "list_all isspace ?w"
    by (auto simp: list_all_iff dest: set_takeWhileD)
  have ds: "?ds \<noteq> []" "list_all (in_base 10) ?ds"
    using s2 c by (auto simp: list_all_iff dest: set_takeWhileD)
  have last: "case rest of [] \<Rightarrow> True | c # _ \<Rightarrow> \<not> in_base 10 c"
  proof (cases rest)
    case Nil
    then show ?thesis by simp
  next
    case (Cons x xs)
    then have "dropWhile (in_base 10) s2 \<noteq> []"
      using rest by simp
    from hd_dropWhile [OF this] show ?thesis
      using Cons rest by simp
  qed
  show ?thesis
    unfolding integer_item_def using decomp w sg(2) ds last by blast
qed

lemma item_scan_d:
  assumes "integer_item s rest"
  shows "\<exists>v. scan_d lw s = Converted v rest"
proof -
  from assms obtain w sg ds where s: "s = w @ sg @ ds @ rest" and w: "list_all isspace w"
    and sg: "sg = [] \<or> sg = ''+'' \<or> sg = ''-''" and ds: "ds \<noteq> []" "list_all (in_base 10) ds"
    and last: "case rest of [] \<Rightarrow> True | c # _ \<Rightarrow> \<not> in_base 10 c"
    unfolding integer_item_def by blast
  from ds obtain d ds' where d: "ds = d # ds'" "in_base 10 d"
    by (cases ds) auto
  have skip: "dropWhile isspace s = sg @ ds @ rest"
  proof -
    have "dropWhile isspace s = dropWhile isspace (sg @ ds @ rest)"
      unfolding s using w by (intro dropWhile_append2) (simp add: list_all_iff)
    also have "\<dots> = sg @ ds @ rest"
      using sg d digit_not_space [OF d(2)] by (auto simp: isspace_def)
    finally show ?thesis .
  qed
  have sign: "split_sign (sg @ ds @ rest) = (sg = ''-'', ds @ rest)"
    using sg d digit_not_sign [OF d(2)] by (auto simp: split_sign_def)
  have digits: "dropWhile (in_base 10) (ds @ rest) = rest"
  proof -
    have "dropWhile (in_base 10) (ds @ rest) = dropWhile (in_base 10) rest"
      using ds(2) by (intro dropWhile_append2) (simp add: list_all_iff)
    also have "\<dots> = rest"
      using last by (cases rest) auto
    finally show ?thesis .
  qed
  show ?thesis
    using skip sign digits d by (simp add: scan_d_def Let_def)
qed

lemma scan_d_skips: "scan_d lw (dropWhile isspace s) = scan_d lw s"
  by (simp add: scan_d_def)

text \<open>\<^verbatim>\<open>sscanf\<close> returns 6 on exactly the texts that begin with six integers.\<close>

lemma six_integers_scanned:
  assumes "six_integers s"
  shows "fst (sscanf lw timestamp_format s) = 6"
proof -
  from assms obtain r1 r2 r3 r4 r5 r6 where
    i: "integer_item s (CHR ''-'' # r1)" "integer_item r1 (CHR ''-'' # r2)"
      "integer_item r2 r3" "integer_item r3 (CHR '':'' # r4)"
      "integer_item r4 (CHR '':'' # r5)" "integer_item r5 r6"
    unfolding six_integers_def by blast
  from item_scan_d [OF i(1)] obtain v1 where 1: "scan_d lw s = Converted v1 (CHR ''-'' # r1)" ..
  from item_scan_d [OF i(2)] obtain v2 where 2: "scan_d lw r1 = Converted v2 (CHR ''-'' # r2)" ..
  from item_scan_d [OF i(3)] obtain v3 where 3: "scan_d lw r2 = Converted v3 r3" ..
  from item_scan_d [OF i(4)] obtain v4 where 4: "scan_d lw r3 = Converted v4 (CHR '':'' # r4)" ..
  from item_scan_d [OF i(5)] obtain v5 where 5: "scan_d lw r4 = Converted v5 (CHR '':'' # r5)" ..
  from item_scan_d [OF i(6)] obtain v6 where 6: "scan_d lw r5 = Converted v6 r6" ..
  show ?thesis
    by (simp add: sscanf_def timestamp_format_def 1 2 3 4 5 6 scan_d_skips)
qed

lemma scanned_six_integers:
  assumes "fst (sscanf lw timestamp_format s) = 6"
  shows "six_integers s"
proof -
  note defs = sscanf_def timestamp_format_def scan_d_skips
  obtain v1 t1 where 1: "scan_d lw s = Converted v1 t1"
    using assms by (cases "scan_d lw s") (simp_all add: defs)
  obtain r1 where t1: "t1 = CHR ''-'' # r1"
    using assms by (cases t1) (simp_all add: defs 1 split: if_splits)
  obtain v2 t2 where 2: "scan_d lw r1 = Converted v2 t2"
    using assms by (cases "scan_d lw r1") (simp_all add: defs 1 t1)
  obtain r2 where t2: "t2 = CHR ''-'' # r2"
    using assms by (cases t2) (simp_all add: defs 1 t1 2 split: if_splits)
  obtain v3 r3 where 3: "scan_d lw r2 = Converted v3 r3"
    using assms by (cases "scan_d lw r2") (simp_all add: defs 1 t1 2 t2)
  obtain v4 t4 where 4: "scan_d lw r3 = Converted v4 t4"
    using assms by (cases "scan_d lw r3") (simp_all add: defs 1 t1 2 t2 3)
  obtain r4 where t4: "t4 = CHR '':'' # r4"
    using assms by (cases t4) (simp_all add: defs 1 t1 2 t2 3 4 split: if_splits)
  obtain v5 t5 where 5: "scan_d lw r4 = Converted v5 t5"
    using assms by (cases "scan_d lw r4") (simp_all add: defs 1 t1 2 t2 3 4 t4)
  obtain r5 where t5: "t5 = CHR '':'' # r5"
    using assms by (cases t5) (simp_all add: defs 1 t1 2 t2 3 4 t4 5 split: if_splits)
  obtain v6 r6 where 6: "scan_d lw r5 = Converted v6 r6"
    using assms by (cases "scan_d lw r5") (simp_all add: defs 1 t1 2 t2 3 4 t4 5 t5)
  have "integer_item s (CHR ''-'' # r1)"
    using 1 unfolding t1 by (rule scan_d_item)
  moreover have "integer_item r1 (CHR ''-'' # r2)"
    using 2 unfolding t2 by (rule scan_d_item)
  moreover have "integer_item r2 r3"
    using 3 by (rule scan_d_item)
  moreover have "integer_item r3 (CHR '':'' # r4)"
    using 4 unfolding t4 by (rule scan_d_item)
  moreover have "integer_item r4 (CHR '':'' # r5)"
    using 5 unfolding t5 by (rule scan_d_item)
  moreover have "integer_item r5 r6"
    using 6 by (rule scan_d_item)
  ultimately show ?thesis
    unfolding six_integers_def by blast
qed

lemma sscanf_six_iff: "fst (sscanf lw timestamp_format s) = 6 \<longleftrightarrow> six_integers s"
  using six_integers_scanned scanned_six_integers by blast

text \<open>Every text of the fixed pattern begins with six integers.\<close>

lemma fixed_pattern_six_integers:
  assumes "fixed_pattern s"
  shows "six_integers s"
proof -
  from assms obtain y1 y2 y3 y4 m1 m2 d1 d2 h1 h2 n1 n2 s1 s2 where
    s: "s = [y1, y2, y3, y4, CHR ''-'', m1, m2, CHR ''-'', d1, d2, CHR '' '',
             h1, h2, CHR '':'', n1, n2, CHR '':'', s1, s2]"
    and dg: "in_base 10 y1" "in_base 10 y2" "in_base 10 y3" "in_base 10 y4"
      "in_base 10 m1" "in_base 10 m2" "in_base 10 d1" "in_base 10 d2"
      "in_base 10 h1" "in_base 10 h2" "in_base 10 n1" "in_base 10 n2"
      "in_base 10 s1" "in_base 10 s2"
    by (auto simp: fixed_pattern_def pattern_char_def list_all2_Cons1)
  have not_digit: "\<not> in_base 10 (CHR ''-'')" "\<not> in_base 10 (CHR '' '')"
    "\<not> in_base 10 (CHR '':'')"
    by (simp_all add: in_base_def digit_value_def)
  have item: "integer_item (a # b # rest) rest"
    if "in_base 10 a" "in_base 10 b" "case rest of [] \<Rightarrow> True | c # _ \<Rightarrow> \<not> in_base 10 c"
    for a b rest
    unfolding integer_item_def
    using that by (intro exI [of _ "[]"] exI [of _ "[a, b]"]) simp
  have year: "integer_item (a # b # c # d # rest) rest"
    if "in_base 10 a" "in_base 10 b" "in_base 10 c" "in_base 10 d"
      "case rest of [] \<Rightarrow> True | c # _ \<Rightarrow> \<not> in_base 10 c"
    for a b c d rest
    unfolding integer_item_def
    using that by (intro exI [of _ "[]"] exI [of _ "[a, b, c, d]"]) simp
  have blank: "integer_item (CHR '' '' # a # b # rest) rest"
    if "in_base 10 a" "in_base 10 b" "case rest of [] \<Rightarrow> True | c # _ \<Rightarrow> \<not> in_base 10 c"
    for a b rest
    unfolding integer_item_def
    using that
    by (intro exI [of _ "[CHR '' '']"] exI [of _ "[]"] exI [of _ "[a, b]"]) (simp add: isspace_def)
  show ?thesis
    unfolding six_integers_def s
    apply (rule exI [of _ "[m1, m2, CHR ''-'', d1, d2, CHR '' '', h1, h2, CHR '':'', n1, n2,
                            CHR '':'', s1, s2]"])
    apply (rule exI [of _ "[d1, d2, CHR '' '', h1, h2, CHR '':'', n1, n2, CHR '':'', s1, s2]"])
    apply (rule exI [of _ "[CHR '' '', h1, h2, CHR '':'', n1, n2, CHR '':'', s1, s2]"])
    apply (rule exI [of _ "[n1, n2, CHR '':'', s1, s2]"])
    apply (rule exI [of _ "[s1, s2]"])
    apply (rule exI [of _ "[]"])
    apply (intro conjI)
         apply (rule year; simp add: dg not_digit)
        apply (rule item; simp add: dg not_digit)
       apply (rule item; simp add: dg not_digit)
      apply (rule blank; simp add: dg not_digit)
     apply (rule item; simp add: dg not_digit)
    apply (rule item; simp add: dg)
    done
qed

text \<open>
  Claim C4, as the header has it. On a valid column whose value is SQL NULL,
  \<^verbatim>\<open>getTimestamp\<close> returns epoch-zero and \<^verbatim>\<open>getNullableTimestamp\<close> returns an absent
  value. On a text that does not begin with six integers laid out as
  \<^verbatim>\<open>%d-%d-%d %d:%d:%d\<close> reads them, such as \<^verbatim>\<open>bad\<close>, \<^verbatim>\<open>getTimestamp\<close> returns
  epoch-zero and \<^verbatim>\<open>getNullableTimestamp\<close> returns a present epoch-zero: it is absent
  for SQL NULL only. Such a text never matches the fixed pattern, since every text
  that matches \<^verbatim>\<open>YYYY-MM-DD HH:MM:SS\<close> begins with six integers.
\<close>

theorem timestamp_null_or_not_six_integers:
  assumes "0 \<le> i" and "i < int (length (row r))"
  shows "(row r ! nat i = None \<longrightarrow>
            getTimestamp lw mktime r i = Inr 0 \<and> getNullableTimestamp lw mktime r i = Inr None)
       \<and> (\<forall>s. row r ! nat i = Some s \<and> \<not> six_integers s \<longrightarrow>
            \<not> fixed_pattern s \<and>
            getTimestamp lw mktime r i = Inr 0 \<and>
            getNullableTimestamp lw mktime r i = Inr (Some 0))"
proof -
  have c: "cell r i = Inr (row r ! nat i)"
    using assms by (rule cell_valid)
  have null: "getTimestamp lw mktime r i = Inr 0 \<and> getNullableTimestamp lw mktime r i = Inr None"
    if "row r ! nat i = None"
    using that by (simp add: c getTimestamp_def getNullableTimestamp_def)
  have unscanned: "\<not> fixed_pattern s \<and> getTimestamp lw mktime r i = Inr 0 \<and>
      getNullableTimestamp lw mktime r i = Inr (Some 0)"
    if s: "row r ! nat i = Some s" and six: "\<not> six_integers s" for s
  proof -
    have n: "fst (sscanf lw timestamp_format s) \<noteq> 6"
      using six by (simp add: sscanf_six_iff)
    have t: "getTimestamp lw mktime r i = Inr 0"
      using s n by (auto simp: c getTimestamp_def split: prod.splits)
    have "\<not> fixed_pattern s"
      using six fixed_pattern_six_integers by blast
    then show ?thesis
      using s by (simp add: t c getNullableTimestamp_def)
  qed
  show ?thesis
    using null unscanned by blast
qed

theorem timestamp_null_or_not_six_integers_witness:
  "\<not> six_integers ''bad''
   \<and> getTimestamp 64 mktime_utc \<lparr>row = [Some ''bad'', None], query = Map.empty\<rparr> 0 = Inr 0
   \<and> getNullableTimestamp 64 mktime_utc \<lparr>row = [Some ''bad'', None], query = Map.empty\<rparr> 0
       = Inr (Some 0)
   \<and> getTimestamp 64 mktime_utc \<lparr>row = [Some ''bad'', None], query = Map.empty\<rparr> 1 = Inr 0
   \<and> getNullableTimestamp 64 mktime_utc \<lparr>row = [Some ''bad'', None], query = Map.empty\<rparr> 1
       = Inr None"
proof -
  have "fst (sscanf 64 timestamp_format ''bad'') = 0"
    by (simp add: scan_defs parse_defs)
  then have "fst (sscanf 64 timestamp_format ''bad'') \<noteq> 6"
    by simp
  then have bad: "\<not> six_integers ''bad''"
    using six_integers_scanned by blast
  show ?thesis
    using bad
      timestamp_null_or_not_six_integers
        [of 0 "\<lparr>row = [Some ''bad'', None], query = Map.empty\<rparr>" 64 mktime_utc]
      timestamp_null_or_not_six_integers
        [of 1 "\<lparr>row = [Some ''bad'', None], query = Map.empty\<rparr>" 64 mktime_utc]
    by simp
qed

text \<open>The claim as it is written fails twice. On its own example \<^verbatim>\<open>bad\<close> the nullable
  accessor returns a present value. And the text \<^verbatim>\<open>2007-1-26 10:0:0\<close> does not match
  the fixed pattern, yet it is read as six integers and \<^verbatim>\<open>getTimestamp\<close> returns the
  time it names, not epoch-zero.\<close>

theorem timestamp_claim_counterexample:
  "getNullableTimestamp 64 mktime_utc \<lparr>row = [Some ''bad''], query = Map.empty\<rparr> 0 \<noteq> Inr None
   \<and> \<not> fixed_pattern ''2007-1-26 10:0:0''
   \<and> getTimestamp 64 mktime_utc \<lparr>row = [Some ''2007-1-26 10:0:0''], query = Map.empty\<rparr> 0
       = Inr 1169805600
   \<and> getTimestamp 64 mktime_utc \<lparr>row = [Some ''2007-1-26 10:0:0''], query = Map.empty\<rparr> 0
       \<noteq> Inr 0"
proof -
  have bad: "getNullableTimestamp 64 mktime_utc \<lparr>row = [Some ''bad''], query = Map.empty\<rparr> 0
      = Inr (Some 0)"
    by (simp add: getNullableTimestamp_def getTimestamp_def cell_def scan_defs parse_defs)
  have pattern: "\<not> fixed_pattern ''2007-1-26 10:0:0''"
    by (simp add: fixed_pattern_def)
  have lenient: "getTimestamp 64 mktime_utc
      \<lparr>row = [Some ''2007-1-26 10:0:0''], query = Map.empty\<rparr> 0 = Inr 1169805600"
    by (simp add: getTimestamp_def cell_def scan_defs parse_defs mktime_utc_def
        seconds_utc_def in_time_range_def days_from_civil_def)
  show ?thesis
    unfolding bad lenient using pattern by simp
qed

subsection \<open>\<^verbatim>\<open>QueryException\<close>\<close>

text \<open>
  Claim C10. Constructed without a server handle, a \<^verbatim>\<open>QueryException\<close> has the error
  number -1, an empty server error text and the caller's message. Constructed with a
  handle, it stores the server's error number and text, and its message is the
  caller's message, a line break, the server error text, \<^verbatim>\<open>.  (#\<close>, the error number,
  \<^verbatim>\<open>)\<close>, a line break and, when a statement text is given, \<^verbatim>\<open>Original query: \<close> and that
  text.
\<close>

theorem QueryException_members:
  "err (newQueryException msg None qb) = - 1
   \<and> errorMessage (newQueryException msg None qb) = []
   \<and> message (newQueryException msg None qb) = msg
   \<and> err (newQueryException msg (Some h) qb) = sint (mysql_errno h)
   \<and> errorMessage (newQueryException msg (Some h) qb) = mysql_error h
   \<and> message (newQueryException msg (Some h) None)
       = msg @ [CHR 0x0A] @ mysql_error h @ ''.  (#'' @ decimal (sint (mysql_errno h)) @ '')''
         @ [CHR 0x0A]
   \<and> message (newQueryException msg (Some h) (Some q))
       = msg @ [CHR 0x0A] @ mysql_error h @ ''.  (#'' @ decimal (sint (mysql_errno h)) @ '')''
         @ [CHR 0x0A] @ ''Original query: '' @ q"
  by (simp add: newQueryException_def Let_def)

theorem QueryException_members_witness:
  "err (newQueryException ''failed'' None None) = - 1
   \<and> message (newQueryException ''failed''
        (Some \<lparr>mysql_errno = 1064, mysql_error = ''syntax error''\<rparr>) (Some ''SELEC 1''))
       = ''failed'' @ [CHR 0x0A] @ ''syntax error.  (#1064)'' @ [CHR 0x0A]
         @ ''Original query: SELEC 1''"
  using QueryException_members [of "''failed''" None
      "\<lparr>mysql_errno = 1064, mysql_error = ''syntax error''\<rparr>" "''SELEC 1''"]
  by (simp add: decimal_def)

subsection \<open>The cursor\<close>

text \<open>
  Claim C7. While a buffered record remains, \<^verbatim>\<open>peekRow\<close> returns the record at the
  cursor and leaves the query as it was, \<^verbatim>\<open>getRow\<close> on that query returns the same
  record and moves the cursor one forward, and \<^verbatim>\<open>skipRow\<close> moves the cursor one
  forward and returns no record; nothing else of the query changes.
\<close>

theorem peekRow_getRow_skipRow:
  assumes "hasNextRow q"
  shows "\<exists>r. peekRow q = Inr (r, q)
           \<and> getRow q = Inr (r, q\<lparr>rowPosition := rowPosition q + 1\<rparr>)
           \<and> row r = rows q ! rowPosition q
           \<and> skipRow q = Inr (q\<lparr>rowPosition := rowPosition q + 1\<rparr>)"
  using assms by (simp add: peekRow_def getRow_def skipRow_def currentRow_def)

theorem peekRow_getRow_skipRow_witness:
  "peekRow (execute ''q'' \<lparr>fieldNames = [''id''], records = [[Some ''1''], [Some ''2'']]\<rparr>)
     = Inr (\<lparr>row = [Some ''1''], query = setupFields [''id'']\<rparr>,
            execute ''q'' \<lparr>fieldNames = [''id''], records = [[Some ''1''], [Some ''2'']]\<rparr>)
   \<and> map_sum id (\<lambda>(r, q'). (row r, rowPosition q'))
       (getRow (execute ''q'' \<lparr>fieldNames = [''id''], records = [[Some ''1''], [Some ''2'']]\<rparr>))
     = Inr ([Some ''1''], 1)
   \<and> map_sum id rowPosition
       (skipRow (execute ''q'' \<lparr>fieldNames = [''id''], records = [[Some ''1''], [Some ''2'']]\<rparr>))
     = Inr 1"
  using peekRow_getRow_skipRow
    [of "execute ''q'' \<lparr>fieldNames = [''id''], records = [[Some ''1''], [Some ''2'']]\<rparr>"]
  by (auto simp: hasNextRow_def execute_def peekRow_def currentRow_def)

subsection \<open>The field index\<close>

lemma setupFields_unknown:
  "f \<notin> set names \<Longrightarrow> setupFields names f = None"
  by (simp add: setupFields_def map_of_zip_is_None)

lemma setupFields_known:
  assumes "f \<in> set names"
  shows "\<exists>n < length names. setupFields names f = Some (int n) \<and> names ! n = f"
proof -
  let ?ps = "zip names (map int [0..<length names])"
  have "map_of ?ps f \<noteq> None"
    using assms by (simp add: map_of_zip_is_None)
  then obtain v where v: "map_of ?ps f = Some v"
    by blast
  then have "(f, v) \<in> set ?ps"
    by (rule map_of_SomeD)
  then obtain n where n: "n < length ?ps" and nth: "?ps ! n = (f, v)"
    by (auto simp: in_set_conv_nth)
  from n have len: "n < length names"
    by simp
  with nth have "names ! n = f" and "v = int n"
    by simp_all
  with v len show ?thesis
    by (auto simp: setupFields_def)
qed

lemma setupFields_position:
  assumes "distinct names" and "n < length names"
  shows "setupFields names (names ! n) = Some (int n)"
proof -
  have "map_of (zip names (map int [0..<length names])) (names ! n)
          = Some (map int [0..<length names] ! n)"
    using assms by (intro map_of_zip_nth) simp_all
  then show ?thesis
    using assms(2) by (simp add: setupFields_def)
qed

lemma indexOf_inj:
  "inj_on (indexOf (execute text res)) (set (fieldNames res))"
proof (rule inj_onI)
  fix f g
  assume f: "f \<in> set (fieldNames res)" and g: "g \<in> set (fieldNames res)"
    and eq: "indexOf (execute text res) f = indexOf (execute text res) g"
  from setupFields_known [OF f] obtain n where
    n: "setupFields (fieldNames res) f = Some (int n)" "fieldNames res ! n = f"
    by blast
  from setupFields_known [OF g] obtain m where
    m: "setupFields (fieldNames res) g = Some (int m)" "fieldNames res ! m = g"
    by blast
  from eq n(1) m(1) have "n = m"
    by (simp add: indexOf_def Query_getIndexByField_def lookupField_def execute_def)
  with n(2) m(2) show "f = g"
    by simp
qed

lemma indexOf_image:
  assumes "distinct (fieldNames res)"
  shows "indexOf (execute text res) ` set (fieldNames res) = {0..<int (length (fieldNames res))}"
proof (rule set_eqI, rule iffI)
  fix k
  assume "k \<in> indexOf (execute text res) ` set (fieldNames res)"
  then obtain f where f: "f \<in> set (fieldNames res)" and k: "k = indexOf (execute text res) f"
    by blast
  from setupFields_known [OF f] obtain n where
    "n < length (fieldNames res)" "setupFields (fieldNames res) f = Some (int n)"
    by blast
  with k show "k \<in> {0..<int (length (fieldNames res))}"
    by (simp add: indexOf_def Query_getIndexByField_def lookupField_def execute_def)
next
  fix k
  assume "k \<in> {0..<int (length (fieldNames res))}"
  then have n: "nat k < length (fieldNames res)" and k: "k = int (nat k)"
    by (simp_all add: nat_less_iff)
  have "indexOf (execute text res) (fieldNames res ! nat k) = int (nat k)"
    using setupFields_position [OF assms n]
    by (simp add: indexOf_def Query_getIndexByField_def lookupField_def execute_def)
  moreover have "fieldNames res ! nat k \<in> set (fieldNames res)"
    using n by simp
  ultimately show "k \<in> indexOf (execute text res) ` set (fieldNames res)"
    using k by (metis imageI)
qed

text \<open>
  Claim C6, as a field index with one position for each name has it. For the query
  that \<^emph>\<open>execute\<close> builds from a result handle: \<^verbatim>\<open>getIndexByField\<close> fails with a field
  error on every name that is not a column name; on every column name it returns a
  position at which that name is declared; a row of the query answers as the query
  does; the lookup is injective on the column names; and when the column names are
  pairwise distinct it returns for the column at each position that position, and is
  a bijection from the column names onto the positions.
\<close>

theorem getIndexByField_total_bijection:
  "(f \<notin> set (fieldNames res) \<longrightarrow>
      Query_getIndexByField (execute text res) f = Inl FieldError)
   \<and> (f \<in> set (fieldNames res) \<longrightarrow>
        (\<exists>n < length (fieldNames res).
           Query_getIndexByField (execute text res) f = Inr (int n) \<and> fieldNames res ! n = f))
   \<and> getIndexByField (currentRow (execute text res)) f
       = Query_getIndexByField (execute text res) f
   \<and> inj_on (indexOf (execute text res)) (set (fieldNames res))
   \<and> (distinct (fieldNames res) \<longrightarrow>
        (\<forall>n < length (fieldNames res).
           Query_getIndexByField (execute text res) (fieldNames res ! n) = Inr (int n))
        \<and> bij_betw (indexOf (execute text res)) (set (fieldNames res))
             {0..<int (length (fieldNames res))})"
proof -
  have unknown: "Query_getIndexByField (execute text res) f = Inl FieldError"
    if "f \<notin> set (fieldNames res)"
    using setupFields_unknown [OF that]
    by (simp add: Query_getIndexByField_def lookupField_def execute_def)
  have known: "\<exists>n < length (fieldNames res).
      Query_getIndexByField (execute text res) f = Inr (int n) \<and> fieldNames res ! n = f"
    if "f \<in> set (fieldNames res)"
    using setupFields_known [OF that]
    by (auto simp: Query_getIndexByField_def lookupField_def execute_def)
  have delegate: "getIndexByField (currentRow (execute text res)) f
      = Query_getIndexByField (execute text res) f"
    by (simp add: getIndexByField_def Query_getIndexByField_def currentRow_def)
  have position: "Query_getIndexByField (execute text res) (fieldNames res ! n) = Inr (int n)"
    if "distinct (fieldNames res)" and "n < length (fieldNames res)" for n
    using setupFields_position [OF that]
    by (simp add: Query_getIndexByField_def lookupField_def execute_def)
  have bij: "bij_betw (indexOf (execute text res)) (set (fieldNames res))
      {0..<int (length (fieldNames res))}"
    if "distinct (fieldNames res)"
    unfolding bij_betw_def using indexOf_inj indexOf_image [OF that] by blast
  show ?thesis
    using unknown known delegate indexOf_inj position bij by blast
qed

theorem getIndexByField_total_bijection_witness:
  "Query_getIndexByField (execute ''q'' \<lparr>fieldNames = [''id'', ''name''], records = []\<rparr>) ''age''
     = Inl FieldError
   \<and> Query_getIndexByField (execute ''q'' \<lparr>fieldNames = [''id'', ''name''], records = []\<rparr>) ''name''
     = Inr 1
   \<and> bij_betw (indexOf (execute ''q'' \<lparr>fieldNames = [''id'', ''name''], records = []\<rparr>))
       {''id'', ''name''} {0..<2}"
  using getIndexByField_total_bijection
      [of "''age''" "\<lparr>fieldNames = [''id'', ''name''], records = []\<rparr>" "''q''"]
    getIndexByField_total_bijection
      [of "''name''" "\<lparr>fieldNames = [''id'', ''name''], records = []\<rparr>" "''q''"]
  by (simp add: Query_getIndexByField_def lookupField_def execute_def setupFields_def)

text \<open>The claim as it is written fails when two columns have one name, as the two
  \<^verbatim>\<open>id\<close> columns of a join have: the lookup returns position 0 for the name, so it
  does not return the position of the column at position 1, and it is no bijection
  from the column names onto the two positions.\<close>

theorem repeated_column_name_counterexample:
  "Query_getIndexByField (execute ''q'' \<lparr>fieldNames = [''id'', ''id''], records = []\<rparr>) ''id''
     = Inr 0
   \<and> Query_getIndexByField (execute ''q'' \<lparr>fieldNames = [''id'', ''id''], records = []\<rparr>)
        ([''id'', ''id''] ! 1) \<noteq> Inr 1
   \<and> \<not> bij_betw (indexOf (execute ''q'' \<lparr>fieldNames = [''id'', ''id''], records = []\<rparr>))
         (set [''id'', ''id'']) {0..<2}"
proof -
  have look: "Query_getIndexByField
      (execute ''q'' \<lparr>fieldNames = [''id'', ''id''], records = []\<rparr>) ''id'' = Inr 0"
    by (simp add: Query_getIndexByField_def lookupField_def execute_def setupFields_def)
  have "indexOf (execute ''q'' \<lparr>fieldNames = [''id'', ''id''], records = []\<rparr>)
      ` set [''id'', ''id''] = {0}"
    by (simp add: indexOf_def look)
  moreover have "{0} \<noteq> {0..<2::int}"
  proof
    assume eq: "{0} = {0..<2::int}"
    have "(1::int) \<in> {0..<2}"
      by simp
    then have "(1::int) \<in> {0}"
      unfolding eq [symmetric] .
    then show False
      by simp
  qed
  ultimately have "\<not> bij_betw
      (indexOf (execute ''q'' \<lparr>fieldNames = [''id'', ''id''], records = []\<rparr>))
      (set [''id'', ''id'']) {0..<2}"
    unfolding bij_betw_def by simp
  then show ?thesis
    using look by simp
qed

subsection \<open>Batch inserts\<close>







end

